theory Spec2Isabelle
  imports Main "HOL-Library.Word"
begin

section \<open>Data model of the client connection\<close>

text \<open>
  The publishing half of the client connection (\<open>ClientConn.Announce\<close>, \<open>Record\<close>,
  \<open>backgroundRecordUDP\<close>, \<open>backgroundRecordTCP\<close>, \<open>WriteFrame\<close>) and the RTP-Info header
  codec (\<open>RTPInfo.Read\<close>, \<open>RTPInfo.Write\<close>) are embedded function by function. The
  server's handling of SETUP, of which the repository's tests are given, is modelled from the
  specification in a section of its own.
  Go pointers that the code dereferences are options (\<open>None\<close> is nil), a Go pair
  \<open>(*Response, error)\<close> is a pair of options, a panic is the value \<open>Panic\<close>, and every
  call that leaves the connection (a socket write, a deadline, a call of the RTCP helper, a
  goroutine being started) is an entry of an effect trace, in program order.
\<close>

type_synonym bytes = "8 word list"
type_synonym time = int
  \<comment> \<open>\<open>time.Time\<close> and \<open>time.Duration\<close>, in nanoseconds\<close>

datatype 'a outcome = Return 'a | Panic

text \<open>
  Modelled from the spec: the enumeration \<open>clientConnState\<close> is declared outside the sources
  at hand; its values are the states of the client connection state machine of the
  specification (section 4.4).
\<close>

datatype clientConnState =
    clientConnStateInitial
  | clientConnStatePrePlay
  | clientConnStatePlay
  | clientConnStatePreRecord
  | clientConnStateRecord
  | clientConnStateClosed

text \<open>
  Modelled from the spec: the types \<open>StreamProtocol\<close>, \<open>StreamType\<close>, \<open>Track\<close>,
  \<open>Request\<close>, \<open>Response\<close>, \<open>InterleavedFrame\<close> and \<open>ClientConn\<close> are declared outside
  the sources at hand. They follow the data model of the specification (section 3): the
  transport protocol is UDP or TCP, the stream type is RTP or RTCP, and each structure has the
  fields that the embedded functions read or assign.
\<close>

datatype StreamProtocol = StreamProtocolUDP | StreamProtocolTCP

datatype StreamType = StreamTypeRTP | StreamTypeRTCP

datatype Method = Announce_m | Record_m

datatype error =
    ErrClientWrongState clientConnState "clientConnState set"
    \<comment> \<open>\<open>liberrors.ErrClientWrongState\<close>: the current state and the allowed ones\<close>
  | ErrClientWrongStatusCode int string
    \<comment> \<open>\<open>liberrors.ErrClientWrongStatusCode{Code, Message}\<close>\<close>
  | Errorf string
    \<comment> \<open>\<open>fmt.Errorf\<close> with the formatted message\<close>
  | ErrSyntax
  | ErrRange
    \<comment> \<open>\<open>strconv.ErrSyntax\<close> and \<open>strconv.ErrRange\<close>\<close>
  | ErrParseURL string
    \<comment> \<open>an error of \<open>base.ParseURL\<close>\<close>
  | ErrIO string
    \<comment> \<open>an error of the network: a failed read or write\<close>

record Attribute =
  Key :: string
  Value :: string

record MediaDescription =
  Attributes :: "Attribute list"

record 'u Track =
  ID :: int
  BaseURL :: "'u option"
  Media :: MediaDescription

record 'u Request =
  ReqMethod :: Method
  ReqURL :: "'u option"
  ReqHeader :: "(string \<times> string list) list"
  ReqBody :: bytes

record Response =
  StatusCode :: int
  StatusMessage :: string
  ResHeader :: "(string \<times> string list) list"
  ResBody :: bytes

record InterleavedFrame =
  TrackID :: int
  StreamType :: StreamType
  Payload :: bytes

datatype chan = ChanOpen | ChanClosed

datatype goroutine = backgroundRecordUDP_g | backgroundRecordTCP_g

datatype effect =
    SetReadDeadline "time option"
    \<comment> \<open>\<open>c.nconn.SetReadDeadline\<close>; \<open>None\<close> is the zero time, which disables the deadline\<close>
  | SetWriteDeadline time
    \<comment> \<open>\<open>c.nconn.SetWriteDeadline\<close>\<close>
  | ProcessFrame int time StreamType bytes
    \<comment> \<open>\<open>c.rtcpSenders[trackID].ProcessFrame(now, streamType, payload)\<close>\<close>
  | Report int time
    \<comment> \<open>\<open>c.rtcpSenders[trackID].Report(now)\<close>\<close>
  | UDPWrite StreamType int bytes
    \<comment> \<open>\<open>write\<close> on the RTP or RTCP UDP listener of a track\<close>
  | FrameWrite InterleavedFrame
    \<comment> \<open>\<open>frame.Write(c.bw)\<close> on the control socket\<close>
  | AwaitReaderDone
    \<comment> \<open>the receive \<open><-readerDone\<close>\<close>
  | Go goroutine

record 'u ClientConn =
  state :: clientConnState
  streamURL :: "'u option"
  streamProtocol :: "StreamProtocol option"
  publishOpen :: bool
  publishError :: "error option"
  backgroundTerminate :: "chan option"
  backgroundDone :: "chan option"
  rtcpSenders :: "int set"
    \<comment> \<open>the keys of the map of RTCP helpers\<close>
  udpRTPListeners :: "int set"
  udpRTCPListeners :: "int set"
    \<comment> \<open>the keys of the maps of UDP listeners\<close>
  WriteTimeout :: time
    \<comment> \<open>\<open>c.conf.WriteTimeout\<close>\<close>

definition StatusOK :: int where
  "StatusOK = 200"

text \<open>
  \<open>ClientConn.Do\<close> is outside the sources at hand. It is a parameter of the model: given
  the connection and the request, it yields an error or a response, and the connection after
  the exchange.
\<close>

type_synonym 'u DoFn = "'u ClientConn \<Rightarrow> 'u Request \<Rightarrow> (error + Response) \<times> 'u ClientConn"

section \<open>Decimal rendering\<close>

definition digitChar :: "nat \<Rightarrow> char" where
  "digitChar d = (''0123456789'') ! d"

fun FormatUint :: "nat \<Rightarrow> string" where
  "FormatUint n = (if n < 10 then [digitChar n] else FormatUint (n div 10) @ [digitChar (n mod 10)])"

declare FormatUint.simps [simp del]

definition FormatInt :: "int \<Rightarrow> string" where
  "FormatInt i = (if i < 0 then CHR ''-'' # FormatUint (nat (- i)) else FormatUint (nat i))"

section \<open>Announce and Record\<close>

text \<open>
  Modelled from the spec: \<open>ClientConn.checkState\<close> is outside the sources at hand. Following
  the specification (section 4.4), an operation called in a state that is not among the allowed
  ones fails with \<open>WrongState{current, allowed}\<close>; otherwise the check passes. It does not
  modify the connection.
\<close>

definition checkState :: "'u ClientConn \<Rightarrow> clientConnState set \<Rightarrow> error option" where
  "checkState c allowed =
     (if state c \<in> allowed then None else Some (ErrClientWrongState (state c) allowed))"

text \<open>
  The loop of \<open>Announce\<close> over the tracks: \<open>for i, t := range tracks\<close>. The list holds
  the track objects the slice points to, taken to be pairwise distinct objects.
\<close>

definition setTrack :: "'u option \<Rightarrow> nat \<Rightarrow> 'u Track \<Rightarrow> 'u Track" where
  "setTrack u i t =
     t\<lparr>ID := int i,
       BaseURL := u,
       Media := (Media t)\<lparr>Attributes := Attributes (Media t) @
         [\<lparr>Key = ''control'', Value = ''trackID='' @ FormatInt (int i)\<rparr>]\<rparr>\<rparr>"

fun setTracks :: "'u option \<Rightarrow> nat \<Rightarrow> 'u Track list \<Rightarrow> 'u Track list" where
  "setTracks u i [] = []"
| "setTracks u i (t # ts) = setTrack u i t # setTracks u (Suc i) ts"

text \<open>
  \<open>Announce\<close> returns the pair \<open>(*Response, error)\<close>, the connection and the tracks after
  the call. \<open>tracksWrite\<close> stands for \<open>Tracks.Write\<close>, the SDP serialisation, which is
  outside the sources at hand.
\<close>

definition Announce ::
  "'u DoFn \<Rightarrow> ('u Track list \<Rightarrow> bytes) \<Rightarrow> 'u ClientConn \<Rightarrow> 'u option \<Rightarrow> 'u Track list
     \<Rightarrow> (Response option \<times> error option) \<times> 'u ClientConn \<times> 'u Track list" where
  "Announce Do tracksWrite c u tracks =
     (case checkState c {clientConnStateInitial} of
        Some err \<Rightarrow> ((None, Some err), c, tracks)
      | None \<Rightarrow>
          (let tracks' = setTracks u 0 tracks in
           (case Do c \<lparr>ReqMethod = Announce_m, ReqURL = u,
                       ReqHeader = [(''Content-Type'', [''application/sdp''])],
                       ReqBody = tracksWrite tracks'\<rparr> of
              (r, c1) \<Rightarrow>
                (case r of
                   Inl err \<Rightarrow> ((None, Some err), c1, tracks')
                 | Inr res \<Rightarrow>
                     if StatusCode res \<noteq> StatusOK
                     then ((None, Some (ErrClientWrongStatusCode (StatusCode res) (StatusMessage res))),
                           c1, tracks')
                     else ((Some res, None),
                           c1\<lparr>streamURL := u, state := clientConnStatePreRecord\<rparr>, tracks')))))"

text \<open>
  \<open>Record\<close> returns the pair \<open>(*Response, error)\<close>, the connection after the call and the
  goroutine it started. The dereference \<open>*c.streamProtocol\<close> of a nil pointer panics.
\<close>

definition Record ::
  "'u DoFn \<Rightarrow> 'u ClientConn
     \<Rightarrow> ((Response option \<times> error option) \<times> 'u ClientConn \<times> effect list) outcome" where
  "Record Do c =
     (case checkState c {clientConnStatePreRecord} of
        Some err \<Rightarrow> Return ((None, Some err), c, [])
      | None \<Rightarrow>
          (case Do c \<lparr>ReqMethod = Record_m, ReqURL = streamURL c, ReqHeader = [], ReqBody = []\<rparr> of
             (r, c1) \<Rightarrow>
               (case r of
                  Inl err \<Rightarrow> Return ((None, Some err), c1, [])
                | Inr res \<Rightarrow>
                    if StatusCode res \<noteq> StatusOK
                    then Return ((None, Some (ErrClientWrongStatusCode (StatusCode res) (StatusMessage res))),
                                 c1, [])
                    else
                      (let c2 = c1\<lparr>state := clientConnStateRecord,
                                    publishOpen := True,
                                    backgroundTerminate := Some ChanOpen,
                                    backgroundDone := Some ChanOpen\<rparr> in
                       (case streamProtocol c2 of
                          None \<Rightarrow> Panic
                        | Some p \<Rightarrow>
                            if p = StreamProtocolUDP
                            then Return ((None, None), c2, [Go backgroundRecordUDP_g])
                            else Return ((None, None), c2, [Go backgroundRecordTCP_g]))))))"

section \<open>The background record loops and WriteFrame\<close>

text \<open>
  The loops block in a \<open>select\<close>. What the select receives is an event, supplied from
  outside: the terminate signal (with the clock the UDP branch then reads), a tick of the report
  ticker (with the clock read by \<open>now := time.Now()\<close> and, for each key of \<open>rtcpSenders\<close> in
  the order of the iteration, the result of \<open>Report(now)\<close> and the clock read for the TCP write
  deadline), or the error of the response reader. A loop that has consumed all events without
  returning is still blocked: the value \<open>None\<close>.
\<close>

datatype event =
    Terminate time
  | Tick time "(int \<times> bytes option \<times> time) list"
  | ReaderDone error

fun reportUDP :: "'u ClientConn \<Rightarrow> time \<Rightarrow> (int \<times> bytes option \<times> time) list \<Rightarrow> effect list option" where
  "reportUDP c now [] = Some []"
| "reportUDP c now ((trackID, r, t) # rs) =
     (case r of
        None \<Rightarrow> map_option ((#) (Report trackID now)) (reportUDP c now rs)
      | Some b \<Rightarrow>
          if trackID \<in> udpRTCPListeners c
          then map_option (\<lambda>es. Report trackID now # UDPWrite StreamTypeRTCP trackID b # es)
                 (reportUDP c now rs)
          else None)"

fun reportTCP :: "'u ClientConn \<Rightarrow> time \<Rightarrow> (int \<times> bytes option \<times> time) list \<Rightarrow> effect list" where
  "reportTCP c now [] = []"
| "reportTCP c now ((trackID, r, t) # rs) =
     (case r of
        None \<Rightarrow> Report trackID now # reportTCP c now rs
      | Some b \<Rightarrow>
          Report trackID now # SetWriteDeadline (t + WriteTimeout c) #
          FrameWrite \<lparr>TrackID = trackID, StreamType = StreamTypeRTCP, Payload = b\<rparr> #
          reportTCP c now rs)"

text \<open>The \<open>for { select { ... } }\<close> of \<open>backgroundRecordUDP\<close>, with the trace so far.\<close>

fun recordLoopUDP ::
  "'u ClientConn \<Rightarrow> effect list \<Rightarrow> event list \<Rightarrow> ('u ClientConn \<times> effect list) outcome option" where
  "recordLoopUDP c tr [] = None"
| "recordLoopUDP c tr (Terminate now # es) =
     Some (Return (c\<lparr>publishError := Some (Errorf ''terminated'')\<rparr>,
                   tr @ [SetReadDeadline (Some now), AwaitReaderDone]))"
| "recordLoopUDP c tr (Tick now rs # es) =
     (case reportUDP c now rs of
        None \<Rightarrow> Some Panic
      | Some effs \<Rightarrow> recordLoopUDP c (tr @ effs) es)"
| "recordLoopUDP c tr (ReaderDone err # es) =
     Some (Return (c\<lparr>publishError := Some err\<rparr>, tr))"

text \<open>
  \<open>backgroundRecordUDP\<close>: the read deadline is disabled, the loop runs, and the deferred
  calls set \<open>publishOpen\<close> to false and close \<open>backgroundDone\<close>.
\<close>

definition backgroundRecordUDP ::
  "'u ClientConn \<Rightarrow> event list \<Rightarrow> ('u ClientConn \<times> effect list) outcome option" where
  "backgroundRecordUDP c es =
     (case recordLoopUDP c [SetReadDeadline None] es of
        None \<Rightarrow> None
      | Some Panic \<Rightarrow> Some Panic
      | Some (Return (c', tr)) \<Rightarrow>
          Some (Return (c'\<lparr>publishOpen := False, backgroundDone := Some ChanClosed\<rparr>, tr)))"

text \<open>
  The \<open>for { select { ... } }\<close> of \<open>backgroundRecordTCP\<close>. Its select has no case for the
  response reader, so that event is not received.
\<close>

fun recordLoopTCP ::
  "'u ClientConn \<Rightarrow> effect list \<Rightarrow> event list \<Rightarrow> ('u ClientConn \<times> effect list) option" where
  "recordLoopTCP c tr [] = None"
| "recordLoopTCP c tr (Terminate now # es) = Some (c, tr)"
| "recordLoopTCP c tr (Tick now rs # es) = recordLoopTCP c (tr @ reportTCP c now rs) es"
| "recordLoopTCP c tr (ReaderDone err # es) = recordLoopTCP c tr es"

definition backgroundRecordTCP ::
  "'u ClientConn \<Rightarrow> event list \<Rightarrow> ('u ClientConn \<times> effect list) option" where
  "backgroundRecordTCP c es =
     (case recordLoopTCP c [] es of
        None \<Rightarrow> None
      | Some (c', tr) \<Rightarrow>
          Some (c'\<lparr>publishOpen := False, backgroundDone := Some ChanClosed\<rparr>, tr))"

text \<open>
  \<open>WriteFrame\<close>, given the clock read by \<open>now := time.Now()\<close> and the error result \<open>wr\<close>
  of the socket write. It returns its error and the trace of its calls; it does not assign to
  any field of the connection. A track id that is not a key of \<open>rtcpSenders\<close> or of the
  listener map yields a nil helper, whose method panics, as does the dereference of a nil
  \<open>streamProtocol\<close>. The read lock taken on entry is released on every return.
\<close>

definition WriteFrame ::
  "'u ClientConn \<Rightarrow> time \<Rightarrow> error option \<Rightarrow> int \<Rightarrow> StreamType \<Rightarrow> bytes
     \<Rightarrow> (error option \<times> effect list) outcome" where
  "WriteFrame c now wr trackID streamType payload =
     (if \<not> publishOpen c then Return (publishError c, [])
      else if trackID \<notin> rtcpSenders c then Panic
      else
        (case streamProtocol c of
           None \<Rightarrow> Panic
         | Some p \<Rightarrow>
             if p = StreamProtocolUDP then
               (if streamType = StreamTypeRTP then
                  (if trackID \<in> udpRTPListeners c
                   then Return (wr, [ProcessFrame trackID now streamType payload,
                                     UDPWrite StreamTypeRTP trackID payload])
                   else Panic)
                else
                  (if trackID \<in> udpRTCPListeners c
                   then Return (wr, [ProcessFrame trackID now streamType payload,
                                     UDPWrite StreamTypeRTCP trackID payload])
                   else Panic))
             else
               Return (wr, [ProcessFrame trackID now streamType payload,
                            SetWriteDeadline (now + WriteTimeout c),
                            FrameWrite \<lparr>TrackID = trackID, StreamType = streamType,
                                        Payload = payload\<rparr>])))"

section \<open>The RTP-Info header\<close>

subsection \<open>The functions of the Go library that the codec calls\<close>

text \<open>\<open>strings.Split\<close> and \<open>strings.SplitN(_, _, 2)\<close> on a one-character separator, and \<open>strings.Join\<close>.\<close>

fun Split :: "string \<Rightarrow> char \<Rightarrow> string list" where
  "Split [] sep = [[]]"
| "Split (c # cs) sep =
     (if c = sep then [] # Split cs sep
      else (case Split cs sep of [] \<Rightarrow> [[c]] | w # ws \<Rightarrow> (c # w) # ws))"

definition SplitN2 :: "string \<Rightarrow> char \<Rightarrow> string list" where
  "SplitN2 s sep =
     (if sep \<in> set s then [takeWhile (\<lambda>c. c \<noteq> sep) s, tl (dropWhile (\<lambda>c. c \<noteq> sep) s)]
      else [s])"

fun Join :: "string list \<Rightarrow> string \<Rightarrow> string" where
  "Join [] sep = []"
| "Join [x] sep = x"
| "Join (x # y # ys) sep = x @ sep @ Join (y # ys) sep"

text \<open>
  \<open>strconv.ParseUint(s, 10, bitSize)\<close>: the empty string and any character that is not a
  decimal digit are syntax errors, a value above \<open>2 ^ bitSize - 1\<close> is a range error, found
  in the order of the characters.
\<close>

definition digitVal :: "char \<Rightarrow> nat option" where
  "digitVal c =
     (if c = CHR ''0'' then Some 0 else if c = CHR ''1'' then Some 1
      else if c = CHR ''2'' then Some 2 else if c = CHR ''3'' then Some 3
      else if c = CHR ''4'' then Some 4 else if c = CHR ''5'' then Some 5
      else if c = CHR ''6'' then Some 6 else if c = CHR ''7'' then Some 7
      else if c = CHR ''8'' then Some 8 else if c = CHR ''9'' then Some 9
      else None)"

fun parseUintLoop :: "nat \<Rightarrow> nat \<Rightarrow> string \<Rightarrow> error + nat" where
  "parseUintLoop maxVal n [] = Inr n"
| "parseUintLoop maxVal n (c # cs) =
     (case digitVal c of
        None \<Rightarrow> Inl ErrSyntax
      | Some d \<Rightarrow>
          if n * 10 + d > maxVal then Inl ErrRange
          else parseUintLoop maxVal (n * 10 + d) cs)"

definition ParseUint :: "string \<Rightarrow> nat \<Rightarrow> error + nat" where
  "ParseUint s bitSize = (if s = [] then Inl ErrSyntax else parseUintLoop (2 ^ bitSize - 1) 0 s)"

subsection \<open>Read and Write\<close>

record 'u RTPInfoEntry =
  URL :: "'u option"
  SequenceNumber :: "16 word"
  Timestamp :: "32 word"

type_synonym 'u RTPInfo = "'u RTPInfoEntry list"

text \<open>
  \<open>base.ParseURL\<close> and \<open>URL.String\<close> are outside the sources at hand; they are the
  parameters \<open>ParseURL\<close> and \<open>String\<close> of the codec.
\<close>

text \<open>The body of the inner loop of \<open>Read\<close>: one \<open>key=value\<close> of an entry.\<close>

definition readKV ::
  "(string \<Rightarrow> error + 'u) \<Rightarrow> 'u RTPInfoEntry \<Rightarrow> string \<Rightarrow> error + 'u RTPInfoEntry" where
  "readKV ParseURL e kv =
     (let tmp = SplitN2 kv CHR ''='' in
      if length tmp \<noteq> 2 then Inl (Errorf (''unable to parse key-value ('' @ kv @ '')''))
      else
        (let k = tmp ! 0; v = tmp ! 1 in
         if k = ''url'' then
           (case ParseURL v of
              Inl err \<Rightarrow> Inl err
            | Inr vu \<Rightarrow> Inr (e\<lparr>URL := Some vu\<rparr>))
         else if k = ''seq'' then
           (case ParseUint v 16 of
              Inl err \<Rightarrow> Inl err
            | Inr vi \<Rightarrow> Inr (e\<lparr>SequenceNumber := of_nat vi\<rparr>))
         else if k = ''rtptime'' then
           (case ParseUint v 32 of
              Inl err \<Rightarrow> Inl err
            | Inr vi \<Rightarrow> Inr (e\<lparr>Timestamp := of_nat vi\<rparr>))
         else Inl (Errorf (''invalid key: '' @ k))))"

fun readKVs ::
  "(string \<Rightarrow> error + 'u) \<Rightarrow> 'u RTPInfoEntry \<Rightarrow> string list \<Rightarrow> error + 'u RTPInfoEntry" where
  "readKVs ParseURL e [] = Inr e"
| "readKVs ParseURL e (kv # kvs) =
     (case readKV ParseURL e kv of
        Inl err \<Rightarrow> Inl err
      | Inr e' \<Rightarrow> readKVs ParseURL e' kvs)"

text \<open>
  The outer loop of \<open>Read\<close>. Each decoded entry is appended to the header at once, so an error
  leaves the entries decoded before it in the header.
\<close>

fun readEntries ::
  "(string \<Rightarrow> error + 'u) \<Rightarrow> 'u RTPInfo \<Rightarrow> string list \<Rightarrow> error option \<times> 'u RTPInfo" where
  "readEntries ParseURL h [] = (None, h)"
| "readEntries ParseURL h (tmp # tmps) =
     (case readKVs ParseURL \<lparr>URL = None, SequenceNumber = 0, Timestamp = 0\<rparr> (Split tmp CHR '';'') of
        Inl err \<Rightarrow> (Some err, h)
      | Inr e \<Rightarrow> readEntries ParseURL (h @ [e]) tmps)"

definition fmtValues :: "string list \<Rightarrow> string" where
  \<comment> \<open>the verb \<open>%v\<close> on a slice of strings\<close>
  "fmtValues v = ''['' @ Join v '' '' @ '']''"

definition Read ::
  "(string \<Rightarrow> error + 'u) \<Rightarrow> 'u RTPInfo \<Rightarrow> string list \<Rightarrow> error option \<times> 'u RTPInfo" where
  "Read ParseURL h v =
     (if length v = 0 then (Some (Errorf ''value not provided''), h)
      else if length v > 1
      then (Some (Errorf (''value provided multiple times ('' @ fmtValues v @ '')'')), h)
      else readEntries ParseURL h (Split (v ! 0) CHR '',''))"

text \<open>
  \<open>Write\<close>: one string per entry, joined by commas into a header value of one element. An
  entry whose URL is nil panics in \<open>e.URL.String()\<close>.
\<close>

definition writeEntry :: "('u \<Rightarrow> string) \<Rightarrow> 'u RTPInfoEntry \<Rightarrow> string option" where
  "writeEntry String e =
     (case URL e of
        None \<Rightarrow> None
      | Some u \<Rightarrow>
          Some (''url='' @ String u @
                '';seq='' @ FormatUint (unat (SequenceNumber e)) @
                '';rtptime='' @ FormatUint (unat (Timestamp e))))"

definition Write :: "('u \<Rightarrow> string) \<Rightarrow> 'u RTPInfo \<Rightarrow> string list outcome" where
  "Write String h =
     (case those (map (writeEntry String) h) of
        None \<Rightarrow> Panic
      | Some rets \<Rightarrow> Return [Join rets '',''])"

section \<open>The server's SETUP path agreement\<close>

text \<open>
  Modelled from the spec: the server connection's handling of ANNOUNCE and SETUP requests is
  outside the sources at hand, which hold its tests only. The model follows the
  specification (section 4.5, SETUP path agreement and duplicate SETUP; section 7, the state
  errors; section 9, the control attribute) and the expectations of the tests
  \<open>TestServerReadSetupPath\<close>, \<open>TestServerReadSetupDifferentPaths\<close>,
  \<open>TestServerReadSetupDouble\<close>, \<open>TestServerPublishSetupPath\<close>,
  \<open>TestServerPublishSetupDifferentPaths\<close> and \<open>TestServerPublishSetupDouble\<close>.
  A request URL is given by its path and query: the text after \<open>rtsp://host:port/\<close>.
  Of the session, only the recorded base path, the announced tracks (their control attributes)
  and the ids of the tracks set up are kept.
\<close>

datatype TransportMode = TransportModePlay | TransportModeRecord

datatype serverError =
    CantSetupTracksDifferentPaths
  | TrackAlreadySetup int
  | InvalidTrackPath string

definition serverErrorMessage :: "serverError \<Rightarrow> string" where
  "serverErrorMessage e =
     (case e of
        CantSetupTracksDifferentPaths \<Rightarrow>
          ''can'' @ [CHR 0x27] @ ''t setup tracks with different paths''
      | TrackAlreadySetup i \<Rightarrow> ''track '' @ FormatInt i @ '' has already been setup''
      | InvalidTrackPath p \<Rightarrow> ''invalid track path ('' @ p @ '')'')"

definition StatusBadRequest :: int where
  "StatusBadRequest = 400"

record ServerConn =
  setupPath :: "string option"
  announcedTracks :: "string list"
  setuppedTracks :: "int set"

fun LastIndex :: "string \<Rightarrow> string \<Rightarrow> nat option" where
  "LastIndex [] sub = (if sub = [] then Some 0 else None)"
| "LastIndex (c # cs) sub =
     (case LastIndex cs sub of
        Some i \<Rightarrow> Some (Suc i)
      | None \<Rightarrow> if take (length sub) (c # cs) = sub then Some 0 else None)"

definition PathSplitQuery :: "string \<Rightarrow> string" where
  \<comment> \<open>the path, without the query that starts at the first question mark\<close>
  "PathSplitQuery pq = takeWhile (\<lambda>c. c \<noteq> CHR ''?'') pq"

text \<open>
  Modelled from the spec: the derivation of the base path and the track id, which is outside
  the sources at hand. Reader mode: the base path is what precedes the last \<open>/trackID=N\<close>; a URL without it
  that ends in a slash is track 0 of the path before the slash.
\<close>

definition setupTrackIDPathPlay :: "string \<Rightarrow> serverError + (int \<times> string)" where
  "setupTrackIDPathPlay pq =
     (case LastIndex pq ''/trackID='' of
        None \<Rightarrow>
          if pq \<noteq> [] \<and> last pq = CHR ''/''
          then Inr (0, PathSplitQuery (butlast pq))
          else Inl (InvalidTrackPath pq)
      | Some i \<Rightarrow>
          (case ParseUint (drop (i + length ''/trackID='') pq) 63 of
             Inl err \<Rightarrow> Inl (InvalidTrackPath pq)
           | Inr n \<Rightarrow> Inr (int n, PathSplitQuery (take i pq))))"

text \<open>
  Modelled from the spec: the matching of a SETUP against the announced tracks, which is
  outside the sources at hand. Publisher mode: the URL of an announced track is the announced path followed by the
  track's control attribute, and the id of a track is its index among the announced ones.
\<close>

definition trackPathAndQuery :: "string \<Rightarrow> string \<Rightarrow> string" where
  "trackPathAndQuery path control =
     (if control \<noteq> [] \<and> hd control = CHR ''?'' then path @ control
      else path @ ''/'' @ control)"

fun findTrack :: "string \<Rightarrow> string \<Rightarrow> nat \<Rightarrow> string list \<Rightarrow> nat option" where
  "findTrack pq path i [] = None"
| "findTrack pq path i (control # controls) =
     (if trackPathAndQuery path control = pq then Some i
      else findTrack pq path (Suc i) controls)"

definition setupGetTrackIDPath ::
  "TransportMode \<Rightarrow> ServerConn \<Rightarrow> string \<Rightarrow> serverError + (int \<times> string)" where
  "setupGetTrackIDPath mode sc pq =
     (case mode of
        TransportModePlay \<Rightarrow>
          (case setupTrackIDPathPlay pq of
             Inl err \<Rightarrow> Inl err
           | Inr (trackID, path) \<Rightarrow>
               (case setupPath sc of
                  None \<Rightarrow> Inr (trackID, path)
                | Some p \<Rightarrow>
                    if p \<noteq> path then Inl CantSetupTracksDifferentPaths
                    else Inr (trackID, path)))
      | TransportModeRecord \<Rightarrow>
          (case setupPath sc of
             None \<Rightarrow> Inl (InvalidTrackPath pq)
           | Some p \<Rightarrow>
               (case findTrack pq p 0 (announcedTracks sc) of
                  None \<Rightarrow> Inl (InvalidTrackPath pq)
                | Some i \<Rightarrow> Inr (int i, p))))"

text \<open>
  Modelled from the spec: the server's handling of ANNOUNCE, which is outside the sources at
  hand, given the status of the \<open>OnAnnounce\<close> callback: a 2xx status records the announced
  path and tracks.
\<close>

definition handleAnnounce :: "int \<Rightarrow> ServerConn \<Rightarrow> string \<Rightarrow> string list \<Rightarrow> int \<times> ServerConn" where
  "handleAnnounce status sc path controls =
     (if 200 \<le> status \<and> status < 300
      then (status, sc\<lparr>setupPath := Some path, announcedTracks := controls\<rparr>)
      else (status, sc))"

text \<open>
  Modelled from the spec: the server's handling of SETUP, which is outside the sources at
  hand: the checks made before the \<open>OnSetup\<close> callback, then the callback on the derived
  path and track id. The result is the status of the response, the error the server surfaces,
  and the path and track id the callback was called with.
\<close>

definition handleSetup ::
  "(string \<Rightarrow> int \<Rightarrow> int) \<Rightarrow> ServerConn \<Rightarrow> TransportMode \<Rightarrow> string
     \<Rightarrow> (int \<times> serverError option \<times> (string \<times> int) option) \<times> ServerConn" where
  "handleSetup onSetup sc mode pq =
     (case setupGetTrackIDPath mode sc pq of
        Inl err \<Rightarrow> ((StatusBadRequest, Some err, None), sc)
      | Inr (trackID, path) \<Rightarrow>
          if trackID \<in> setuppedTracks sc
          then ((StatusBadRequest, Some (TrackAlreadySetup trackID), None), sc)
          else
            (let status = onSetup path trackID in
             if 200 \<le> status \<and> status < 300
             then ((status, None, Some (path, trackID)),
                   sc\<lparr>setupPath := Some path,
                      setuppedTracks := insert trackID (setuppedTracks sc)\<rparr>)
             else ((status, None, Some (path, trackID)), sc)))"

section \<open>Concrete connections and requests\<close>

text \<open>
  A connection in its initial state, an exchange that answers every request with a given
  status, and a track, on which the theorems below are instantiated.
\<close>

definition testURL :: string where
  "testURL = ''rtsp://localhost:8554/teststream''"

definition testConn :: "string ClientConn" where
  "testConn =
     \<lparr>state = clientConnStateInitial, streamURL = None, streamProtocol = None,
      publishOpen = False, publishError = None,
      backgroundTerminate = None, backgroundDone = None,
      rtcpSenders = {}, udpRTPListeners = {}, udpRTCPListeners = {},
      WriteTimeout = 10000000000\<rparr>"

definition testResponse :: "int \<Rightarrow> string \<Rightarrow> Response" where
  "testResponse code msg = \<lparr>StatusCode = code, StatusMessage = msg, ResHeader = [], ResBody = []\<rparr>"

definition doStatus :: "int \<Rightarrow> string \<Rightarrow> string DoFn" where
  "doStatus code msg c req = (Inr (testResponse code msg), c)"

definition testTrack :: "string Track" where
  "testTrack =
     \<lparr>ID = 0, BaseURL = None,
      Media = \<lparr>Attributes = [\<lparr>Key = ''rtpmap'', Value = ''96 H264/90000''\<rparr>]\<rparr>\<rparr>"

text \<open>
  A publisher over TCP and one over UDP with track 0 set up, before \<open>Record\<close>, while
  recording, and after the background loop has returned on the terminate signal.
\<close>

definition tcpPublisher :: "string ClientConn" where
  "tcpPublisher =
     testConn\<lparr>state := clientConnStatePreRecord, streamURL := Some testURL,
              streamProtocol := Some StreamProtocolTCP, rtcpSenders := {0}\<rparr>"

definition tcpRecording :: "string ClientConn" where
  "tcpRecording =
     tcpPublisher\<lparr>state := clientConnStateRecord, publishOpen := True,
                  backgroundTerminate := Some ChanOpen, backgroundDone := Some ChanOpen\<rparr>"

definition tcpTerminated :: "string ClientConn" where
  "tcpTerminated = tcpRecording\<lparr>publishOpen := False, backgroundDone := Some ChanClosed\<rparr>"

definition udpRecording :: "string ClientConn" where
  "udpRecording =
     testConn\<lparr>state := clientConnStateRecord, streamURL := Some testURL,
              streamProtocol := Some StreamProtocolUDP, publishOpen := True,
              backgroundTerminate := Some ChanOpen, backgroundDone := Some ChanOpen,
              rtcpSenders := {0}, udpRTPListeners := {0}, udpRTCPListeners := {0}\<rparr>"

text \<open>A URL codec for the instances: the URL is its text, and every text parses.\<close>

definition testParseURL :: "string \<Rightarrow> error + string" where
  "testParseURL s = Inr s"

definition testRTPInfo :: "string RTPInfo" where
  "testRTPInfo =
     [\<lparr>URL = Some ''rtsp://127.0.0.1/test.mkv/track1'', SequenceNumber = 35243,
       Timestamp = 717574556\<rparr>,
      \<lparr>URL = Some ''rtsp://127.0.0.1/test.mkv/track2'', SequenceNumber = 13655,
       Timestamp = 2848846950\<rparr>]"

text \<open>Server sessions: a fresh one, and the publisher session of the tests after ANNOUNCE.\<close>

definition testServerConn :: ServerConn where
  "testServerConn = \<lparr>setupPath = None, announcedTracks = [], setuppedTracks = {}\<rparr>"

definition onSetupOK :: "string \<Rightarrow> int \<Rightarrow> int" where
  "onSetupOK path trackID = 200"

definition publisherSession :: ServerConn where
  "publisherSession =
     snd (handleAnnounce 200 testServerConn ''teststream'' [''trackID=0'', ''trackID=1''])"

definition publisherSession1 :: ServerConn where
  "publisherSession1 =
     snd (handleSetup onSetupOK publisherSession TransportModeRecord ''teststream/trackID=0'')"

definition readerSession1 :: ServerConn where
  "readerSession1 =
     snd (handleSetup onSetupOK testServerConn TransportModePlay ''teststream/trackID=0'')"

section \<open>Predicates on RTP-Info entries\<close>



section \<open>Announce and Record: the state check, the status code, the tracks\<close>




lemma Record_tcpPublisher:
  "Record (doStatus 200 msg) tcpPublisher = Return ((None, None), tcpRecording, [Go backgroundRecordTCP_g])"
  by (simp add: Record_def checkState_def tcpPublisher_def tcpRecording_def testConn_def doStatus_def
      testResponse_def StatusOK_def)

lemma Record_ok:
  assumes "state c = clientConnStatePreRecord"
    and "Do c \<lparr>ReqMethod = Record_m, ReqURL = streamURL c, ReqHeader = [], ReqBody = []\<rparr> = (Inr res, c1)"
    and "StatusCode res = 200"
    and "streamProtocol c1 = Some p"
  shows "Record Do c =
           Return ((None, None),
                   c1\<lparr>state := clientConnStateRecord, publishOpen := True,
                      backgroundTerminate := Some ChanOpen, backgroundDone := Some ChanOpen\<rparr>,
                   [Go (if p = StreamProtocolUDP then backgroundRecordUDP_g else backgroundRecordTCP_g)])"
  using assms by (simp add: Record_def checkState_def StatusOK_def Let_def)

lemma doStatus_tcpPublisher:
  "doStatus 200 ''OK'' tcpPublisher
     \<lparr>ReqMethod = Record_m, ReqURL = streamURL tcpPublisher, ReqHeader = [], ReqBody = []\<rparr> =
   (Inr (testResponse 200 ''OK''), tcpPublisher)"
  by (simp add: doStatus_def)






text \<open>
  Claim C3. When Record is called in PreRecord state on a connection whose transport protocol
  is set, and the exchange yields a response with status 200, Record returns the pair
  \<open>(nil, nil)\<close>, not the response, and the connection is in Record state. (With a nil
  \<open>streamProtocol\<close> the dereference in \<open>Record\<close> panics; the function is documented as
  callable only after \<open>Setup\<close>, which is what sets the protocol.)
\<close>

theorem Record_success_returns_nil_nil:
  assumes "state c = clientConnStatePreRecord"
    and "Do c \<lparr>ReqMethod = Record_m, ReqURL = streamURL c, ReqHeader = [], ReqBody = []\<rparr> = (Inr res, c1)"
    and "StatusCode res = 200"
    and "streamProtocol c1 = Some p"
  shows "\<exists>c' tr. Record Do c = Return ((None, None), c', tr) \<and> state c' = clientConnStateRecord"
  using assms Record_ok [of c Do res c1 p] by simp

theorem Record_success_returns_nil_nil_witness:
  "\<exists>c' tr. Record (doStatus 200 ''OK'') tcpPublisher = Return ((None, None), c', tr)
      \<and> state c' = clientConnStateRecord"
proof -
  have s: "state tcpPublisher = clientConnStatePreRecord"
    by (simp add: tcpPublisher_def)
  have r: "StatusCode (testResponse 200 ''OK'') = 200"
    by (simp add: testResponse_def)
  have p: "streamProtocol tcpPublisher = Some StreamProtocolTCP"
    by (simp add: tcpPublisher_def)
  show ?thesis
    using Record_success_returns_nil_nil [of tcpPublisher "doStatus 200 ''OK''" "testResponse 200 ''OK''" tcpPublisher
                 StreamProtocolTCP]
      s doStatus_tcpPublisher r p
    by blast
qed

text \<open>
  Claim C7. When the exchange of Announce or of Record yields a response whose status is not
  2xx, the call returns no response and the error \<open>ErrClientWrongStatusCode\<close> with the
  code and the message of that response; the state and the stream URL of the connection are
  those before the call, provided the exchange itself has not changed them.
\<close>

theorem Announce_Record_wrong_status_code:
  assumes "\<not> (200 \<le> StatusCode res \<and> StatusCode res < 300)"
    and "state c1 = state c" and "streamURL c1 = streamURL c"
  shows "(state c = clientConnStateInitial
          \<and> Do c \<lparr>ReqMethod = Announce_m, ReqURL = u,
                  ReqHeader = [(''Content-Type'', [''application/sdp''])],
                  ReqBody = W (setTracks u 0 ts)\<rparr> = (Inr res, c1) \<longrightarrow>
          (\<exists>c' ts'. Announce Do W c u ts =
               ((None, Some (ErrClientWrongStatusCode (StatusCode res) (StatusMessage res))), c', ts')
             \<and> state c' = state c \<and> streamURL c' = streamURL c))
       \<and> (state c = clientConnStatePreRecord
          \<and> Do c \<lparr>ReqMethod = Record_m, ReqURL = streamURL c, ReqHeader = [], ReqBody = []\<rparr> =
              (Inr res, c1) \<longrightarrow>
          (\<exists>c' tr. Record Do c =
               Return ((None, Some (ErrClientWrongStatusCode (StatusCode res) (StatusMessage res))), c', tr)
             \<and> state c' = state c \<and> streamURL c' = streamURL c))"
  using assms by (auto simp: Announce_def Record_def checkState_def StatusOK_def Let_def)

theorem Announce_Record_wrong_status_code_witness:
  "(\<exists>c' ts'. Announce (doStatus 404 ''Not Found'') (\<lambda>ts. []) testConn (Some testURL) [testTrack] =
       ((None, Some (ErrClientWrongStatusCode 404 ''Not Found'')), c', ts')
       \<and> state c' = state testConn \<and> streamURL c' = streamURL testConn)
   \<and> (\<exists>c' tr. Record (doStatus 400 ''Bad Request'') tcpPublisher =
       Return ((None, Some (ErrClientWrongStatusCode 400 ''Bad Request'')), c', tr)
       \<and> state c' = state tcpPublisher \<and> streamURL c' = streamURL tcpPublisher)"
proof -
  have n1: "\<not> (200 \<le> StatusCode (testResponse 404 ''Not Found'')
              \<and> StatusCode (testResponse 404 ''Not Found'') < 300)"
    by (simp add: testResponse_def)
  have n2: "\<not> (200 \<le> StatusCode (testResponse 400 ''Bad Request'')
              \<and> StatusCode (testResponse 400 ''Bad Request'') < 300)"
    by (simp add: testResponse_def)
  have s1: "state testConn = clientConnStateInitial"
    by (simp add: testConn_def)
  have s2: "state tcpPublisher = clientConnStatePreRecord"
    by (simp add: tcpPublisher_def)
  have f: "StatusCode (testResponse 404 ''Not Found'') = 404"
    "StatusMessage (testResponse 404 ''Not Found'') = ''Not Found''"
    "StatusCode (testResponse 400 ''Bad Request'') = 400"
    "StatusMessage (testResponse 400 ''Bad Request'') = ''Bad Request''"
    by (simp_all add: testResponse_def)
  have a: "\<exists>c' ts'. Announce (doStatus 404 ''Not Found'') (\<lambda>ts. []) testConn (Some testURL) [testTrack] =
       ((None, Some (ErrClientWrongStatusCode 404 ''Not Found'')), c', ts')
       \<and> state c' = state testConn \<and> streamURL c' = streamURL testConn"
    using Announce_Record_wrong_status_code [OF n1, where ?c1.0 = testConn and c = testConn and Do = "doStatus 404 ''Not Found''"
                 and W = "\<lambda>ts. []" and u = "Some testURL" and ts = "[testTrack]"]
      s1 f by (simp add: doStatus_def)
  have b: "\<exists>c' tr. Record (doStatus 400 ''Bad Request'') tcpPublisher =
       Return ((None, Some (ErrClientWrongStatusCode 400 ''Bad Request'')), c', tr)
       \<and> state c' = state tcpPublisher \<and> streamURL c' = streamURL tcpPublisher"
    using Announce_Record_wrong_status_code [OF n2, where ?c1.0 = tcpPublisher and c = tcpPublisher
                 and Do = "doStatus 400 ''Bad Request''"]
      s2 f by (simp add: doStatus_def)
  from a b show ?thesis by blast
qed



section \<open>WriteFrame and the end of the background loops\<close>

text \<open>
  Claim C4. While \<open>publishOpen\<close> is true, WriteFrame on a track that has an RTCP helper
  first calls the helper's \<open>ProcessFrame\<close> with the clock, the stream type and the payload.
  Over UDP it then writes the payload, as it is, on the track's RTP listener when the stream
  type is RTP and on its RTCP listener when it is RTCP. Over TCP it then sets the write deadline
  to the clock plus \<open>WriteTimeout\<close> and writes the interleaved frame of the track id, the
  stream type and the payload. In each case it returns the error result of the write.
\<close>

theorem WriteFrame_publishOpen:
  assumes "publishOpen c" and "trackID \<in> rtcpSenders c"
  shows "(streamProtocol c = Some StreamProtocolUDP \<and> streamType = StreamTypeRTP
            \<and> trackID \<in> udpRTPListeners c \<longrightarrow>
           WriteFrame c now wr trackID streamType payload =
             Return (wr, [ProcessFrame trackID now streamType payload,
                          UDPWrite StreamTypeRTP trackID payload]))
       \<and> (streamProtocol c = Some StreamProtocolUDP \<and> streamType = StreamTypeRTCP
            \<and> trackID \<in> udpRTCPListeners c \<longrightarrow>
           WriteFrame c now wr trackID streamType payload =
             Return (wr, [ProcessFrame trackID now streamType payload,
                          UDPWrite StreamTypeRTCP trackID payload]))
       \<and> (streamProtocol c = Some StreamProtocolTCP \<longrightarrow>
           WriteFrame c now wr trackID streamType payload =
             Return (wr, [ProcessFrame trackID now streamType payload,
                          SetWriteDeadline (now + WriteTimeout c),
                          FrameWrite \<lparr>TrackID = trackID, StreamType = streamType,
                                      Payload = payload\<rparr>]))"
  using assms by (simp add: WriteFrame_def)

theorem WriteFrame_publishOpen_witness:
  "WriteFrame udpRecording 6 None 0 StreamTypeRTP [1, 2, 3, 4] =
     Return (None, [ProcessFrame 0 6 StreamTypeRTP [1, 2, 3, 4], UDPWrite StreamTypeRTP 0 [1, 2, 3, 4]])
   \<and> WriteFrame udpRecording 6 None 0 StreamTypeRTCP [5, 6, 7, 8] =
     Return (None, [ProcessFrame 0 6 StreamTypeRTCP [5, 6, 7, 8], UDPWrite StreamTypeRTCP 0 [5, 6, 7, 8]])
   \<and> WriteFrame tcpRecording 6 (Some (ErrIO ''broken pipe'')) 0 StreamTypeRTP [1, 2, 3, 4] =
     Return (Some (ErrIO ''broken pipe''),
             [ProcessFrame 0 6 StreamTypeRTP [1, 2, 3, 4],
              SetWriteDeadline 10000000006,
              FrameWrite \<lparr>TrackID = 0, StreamType = StreamTypeRTP, Payload = [1, 2, 3, 4]\<rparr>])"
proof -
  have u: "publishOpen udpRecording" "0 \<in> rtcpSenders udpRecording"
    "streamProtocol udpRecording = Some StreamProtocolUDP"
    "0 \<in> udpRTPListeners udpRecording" "0 \<in> udpRTCPListeners udpRecording"
    by (simp_all add: udpRecording_def)
  have t: "publishOpen tcpRecording" "0 \<in> rtcpSenders tcpRecording"
    "streamProtocol tcpRecording = Some StreamProtocolTCP"
    "WriteTimeout tcpRecording = 10000000000"
    by (simp_all add: tcpRecording_def tcpPublisher_def testConn_def)
  have a: "WriteFrame udpRecording 6 None 0 StreamTypeRTP [1, 2, 3, 4] =
     Return (None, [ProcessFrame 0 6 StreamTypeRTP [1, 2, 3, 4], UDPWrite StreamTypeRTP 0 [1, 2, 3, 4]])"
    using WriteFrame_publishOpen [OF u(1) u(2), of StreamTypeRTP 6 None "[1, 2, 3, 4]"] u(3) u(4) by simp
  have b: "WriteFrame udpRecording 6 None 0 StreamTypeRTCP [5, 6, 7, 8] =
     Return (None, [ProcessFrame 0 6 StreamTypeRTCP [5, 6, 7, 8], UDPWrite StreamTypeRTCP 0 [5, 6, 7, 8]])"
    using WriteFrame_publishOpen [OF u(1) u(2), of StreamTypeRTCP 6 None "[5, 6, 7, 8]"] u(3) u(5) by simp
  have c: "WriteFrame tcpRecording 6 (Some (ErrIO ''broken pipe'')) 0 StreamTypeRTP [1, 2, 3, 4] =
     Return (Some (ErrIO ''broken pipe''),
             [ProcessFrame 0 6 StreamTypeRTP [1, 2, 3, 4],
              SetWriteDeadline 10000000006,
              FrameWrite \<lparr>TrackID = 0, StreamType = StreamTypeRTP, Payload = [1, 2, 3, 4]\<rparr>])"
    using WriteFrame_publishOpen [OF t(1) t(2), of StreamTypeRTP 6 "Some (ErrIO ''broken pipe'')" "[1, 2, 3, 4]"] t(3) t(4)
    by simp
  from a b c show ?thesis by simp
qed

text \<open>
  Claim C5. While \<open>publishOpen\<close> is false, WriteFrame returns the stored
  \<open>publishError\<close> and makes no call: no socket is written, no deadline is set and
  \<open>ProcessFrame\<close> is not called.
\<close>

theorem WriteFrame_not_publishOpen:
  "\<not> publishOpen c \<Longrightarrow> WriteFrame c now wr trackID streamType payload = Return (publishError c, [])"
  by (simp add: WriteFrame_def)

theorem WriteFrame_not_publishOpen_witness:
  "WriteFrame tcpTerminated 6 (Some (ErrIO ''broken pipe'')) 0 StreamTypeRTP [1, 2, 3, 4] =
     Return (publishError tcpTerminated, [])"
proof -
  have "\<not> publishOpen tcpTerminated"
    by (simp add: tcpTerminated_def)
  then show ?thesis by (rule WriteFrame_not_publishOpen)
qed

text \<open>
  The UDP loop on the terminate signal: it sets the read deadline to the clock, waits for the
  response reader, stores the error \<open>terminated\<close> and, on return, sets \<open>publishOpen\<close>
  to false. This holds after any number of ticks.
\<close>

lemma backgroundRecordUDP_terminate:
  "backgroundRecordUDP c [Terminate now] =
     Some (Return (c\<lparr>publishError := Some (Errorf ''terminated''), publishOpen := False,
                     backgroundDone := Some ChanClosed\<rparr>,
                   [SetReadDeadline None, SetReadDeadline (Some now), AwaitReaderDone]))"
  by (simp add: backgroundRecordUDP_def)

lemma recordLoopUDP_ticks_terminate:
  "list_all (\<lambda>e. \<exists>now rs. e = Tick now rs) ticks \<Longrightarrow>
   recordLoopUDP c tr (ticks @ Terminate now # es) = Some (Return (c', tr')) \<Longrightarrow>
   c' = c\<lparr>publishError := Some (Errorf ''terminated'')\<rparr>
   \<and> (\<exists>tr''. tr' = tr'' @ [SetReadDeadline (Some now), AwaitReaderDone])"
proof (induction ticks arbitrary: tr)
  case Nil
  then show ?case by auto
next
  case (Cons e ticks)
  then obtain t rs where e: "e = Tick t rs" by auto
  show ?case
  proof (cases "reportUDP c t rs")
    case None
    with Cons.prems e show ?thesis by simp
  next
    case (Some effs)
    with Cons.prems e have "recordLoopUDP c (tr @ effs) (ticks @ Terminate now # es) = Some (Return (c', tr'))"
      by simp
    with Cons.IH Cons.prems(1) show ?thesis by simp
  qed
qed

text \<open>
  Claim C6, on the TCP loop. A publisher over TCP calls Record, which succeeds; the background
  loop then receives the terminate signal. The loop returns with \<open>publishOpen\<close> false, but
  \<open>publishError\<close> is still nil: the terminate case of \<open>backgroundRecordTCP\<close> does not
  assign it, unlike that of \<open>backgroundRecordUDP\<close>. A later WriteFrame therefore returns a
  nil error, not the error \<open>terminated\<close>, and writes nothing.
\<close>

theorem backgroundRecordTCP_terminate_publishError_nil:
  "Record (doStatus 200 ''OK'') tcpPublisher =
     Return ((None, None), tcpRecording, [Go backgroundRecordTCP_g])
   \<and> backgroundRecordTCP tcpRecording [Terminate 5] = Some (tcpTerminated, [])
   \<and> publishOpen tcpTerminated = False
   \<and> publishError tcpTerminated = None
   \<and> WriteFrame tcpTerminated 6 None 0 StreamTypeRTP [1, 2, 3, 4] = Return (None, [])"
proof (intro conjI)
  show "Record (doStatus 200 ''OK'') tcpPublisher =
     Return ((None, None), tcpRecording, [Go backgroundRecordTCP_g])"
    by (rule Record_tcpPublisher)
  show "backgroundRecordTCP tcpRecording [Terminate 5] = Some (tcpTerminated, [])"
    by (simp add: backgroundRecordTCP_def tcpTerminated_def)
  show p: "publishOpen tcpTerminated = False"
    by (simp add: tcpTerminated_def)
  show e: "publishError tcpTerminated = None"
    by (simp add: tcpTerminated_def tcpRecording_def tcpPublisher_def testConn_def)
  show "WriteFrame tcpTerminated 6 None 0 StreamTypeRTP [1, 2, 3, 4] = Return (None, [])"
    by (simp add: WriteFrame_def p e)
qed

section \<open>The RTP-Info header: decoding what was encoded\<close>








lemma Split_not_Nil: "Split s sep \<noteq> []"
  by (induction s) (auto split: list.splits)


















lemma testRTPInfo_Write:
  "Write (\<lambda>u. u) testRTPInfo =
     Return [''url=rtsp://127.0.0.1/test.mkv/track1;seq=35243;rtptime=717574556,url=rtsp://127.0.0.1/test.mkv/track2;seq=13655;rtptime=2848846950'']"
  by (simp add: Write_def writeEntry_def testRTPInfo_def FormatUint.simps digitChar_def)

lemma testRTPInfo_Read:
  "Read testParseURL []
     [''url=rtsp://127.0.0.1/test.mkv/track1;seq=35243;rtptime=717574556,url=rtsp://127.0.0.1/test.mkv/track2;seq=13655;rtptime=2848846950'']
   = (None, testRTPInfo)"
  by (simp add: Read_def readKV_def SplitN2_def ParseUint_def digitVal_def testParseURL_def testRTPInfo_def)



section \<open>The server's SETUP: the tests, the trailing slash, different paths\<close>

text \<open>The model gives what the tests of the server expect.\<close>

lemma TestServerReadSetupPath:
  "setupTrackIDPathPlay ''teststream/trackID=2'' = Inr (2, ''teststream'')"
  "setupTrackIDPathPlay ''teststream?testing=123/trackID=4'' = Inr (4, ''teststream'')"
  "setupTrackIDPathPlay ''teststream/'' = Inr (0, ''teststream'')"
  "setupTrackIDPathPlay ''test/stream/trackID=0'' = Inr (0, ''test/stream'')"
  "setupTrackIDPathPlay ''test/stream/'' = Inr (0, ''test/stream'')"
  "setupTrackIDPathPlay ''test/stream?testing=123/trackID=4'' = Inr (4, ''test/stream'')"
  by (simp_all add: setupTrackIDPathPlay_def PathSplitQuery_def ParseUint_def digitVal_def)

lemma publisherSession_eq:
  "publisherSession = \<lparr>setupPath = Some ''teststream'', announcedTracks = [''trackID=0'', ''trackID=1''], setuppedTracks = {}\<rparr>"
  by (simp add: publisherSession_def handleAnnounce_def testServerConn_def)

lemma publisherSession1_eq:
  "publisherSession1 = \<lparr>setupPath = Some ''teststream'', announcedTracks = [''trackID=0'', ''trackID=1''], setuppedTracks = {0}\<rparr>"
  by (simp add: publisherSession1_def publisherSession_eq handleSetup_def setupGetTrackIDPath_def
      trackPathAndQuery_def onSetupOK_def)

lemma readerSession1_eq:
  "readerSession1 = \<lparr>setupPath = Some ''teststream'', announcedTracks = [], setuppedTracks = {0}\<rparr>"
  by (simp add: readerSession1_def testServerConn_def handleSetup_def setupGetTrackIDPath_def
      TestServerReadSetupPath onSetupOK_def setupTrackIDPathPlay_def PathSplitQuery_def ParseUint_def digitVal_def)

lemma TestServerReadSetupDifferentPaths:
  "fst (handleSetup onSetupOK testServerConn TransportModePlay ''teststream/trackID=0'') = (200, None, Some (''teststream'', 0))"
  "fst (handleSetup onSetupOK readerSession1 TransportModePlay ''test12stream/trackID=1'') = (400, Some CantSetupTracksDifferentPaths, None)"
  "serverErrorMessage CantSetupTracksDifferentPaths = ''can'' @ [CHR 0x27] @ ''t setup tracks with different paths''"
  by (simp_all add: readerSession1_eq testServerConn_def handleSetup_def setupGetTrackIDPath_def
      onSetupOK_def setupTrackIDPathPlay_def PathSplitQuery_def ParseUint_def digitVal_def
      serverErrorMessage_def StatusBadRequest_def)


lemma TestServerReadSetupDouble:
  "fst (handleSetup onSetupOK readerSession1 TransportModePlay ''teststream/trackID=0'') =
     (400, Some (TrackAlreadySetup 0), None)"
  "serverErrorMessage (TrackAlreadySetup 0) = ''track 0 has already been setup''"
  by (simp_all add: readerSession1_eq handleSetup_def setupGetTrackIDPath_def
      setupTrackIDPathPlay_def PathSplitQuery_def ParseUint_def digitVal_def
      serverErrorMessage_def StatusBadRequest_def FormatInt_def FormatUint.simps digitChar_def)

lemma TestServerPublishSetupPath:
  "fst (handleSetup onSetupOK (snd (handleAnnounce 200 testServerConn ''teststream'' [''trackID=0'']))
     TransportModeRecord ''teststream/trackID=0'') = (200, None, Some (''teststream'', 0))"
  "fst (handleSetup onSetupOK (snd (handleAnnounce 200 testServerConn ''teststream'' [''trackID=2'']))
     TransportModeRecord ''teststream/trackID=2'') = (200, None, Some (''teststream'', 0))"
  "fst (handleSetup onSetupOK (snd (handleAnnounce 200 testServerConn ''teststream'' [''testing=0'']))
     TransportModeRecord ''teststream/testing=0'') = (200, None, Some (''teststream'', 0))"
  "fst (handleSetup onSetupOK (snd (handleAnnounce 200 testServerConn ''teststream'' [''?testing=0'']))
     TransportModeRecord ''teststream?testing=0'') = (200, None, Some (''teststream'', 0))"
  "fst (handleSetup onSetupOK (snd (handleAnnounce 200 testServerConn ''test/stream'' [''trackID=0'']))
     TransportModeRecord ''test/stream/trackID=0'') = (200, None, Some (''test/stream'', 0))"
  "fst (handleSetup onSetupOK (snd (handleAnnounce 200 testServerConn ''test/stream'' [''?testing=0'']))
     TransportModeRecord ''test/stream?testing=0'') = (200, None, Some (''test/stream'', 0))"
  by (simp_all add: handleAnnounce_def testServerConn_def handleSetup_def setupGetTrackIDPath_def
      trackPathAndQuery_def onSetupOK_def)


lemma TestServerPublishSetupDouble:
  "fst (handleSetup onSetupOK publisherSession1 TransportModeRecord ''teststream/trackID=0'') =
     (400, Some (TrackAlreadySetup 0), None)"
  by (simp add: publisherSession1_eq handleSetup_def setupGetTrackIDPath_def
      trackPathAndQuery_def StatusBadRequest_def)







end
